theory Spec2Isabelle
  imports Main
begin

section \<open>The tables\<close>

text \<open>
  The server keeps all of its state in a PostgreSQL database reached through
  \<^verbatim>\<open>pool.query\<close>. A table is a list of rows, in insertion order. Each row type
  carries the columns that the statements of the handlers name. Identifiers are
  integers; a timestamp is a natural number; a nullable column is an option.
\<close>

record user_row =
  u_id :: int
  u_name :: string
  u_email :: string
  u_password :: string
  u_role :: string
  u_active :: bool

record program_row =
  p_id :: int
  p_coach :: int
  p_name :: string
  p_description :: string

record workout_row =
  w_id :: int
  w_program :: int
  w_target_muscle :: string
  w_description :: string
  w_sets :: int

text \<open>Table \<^verbatim>\<open>user_programs\<close>: the assignment of a program to a user.\<close>

record assignment_row =
  up_user :: int
  up_program :: int
  up_completed_at :: "nat option"

text \<open>Table \<^verbatim>\<open>user_progress\<close>: the progress of a user on one workout.\<close>

record progress_row =
  pr_user :: int
  pr_workout :: int
  pr_status :: string
  pr_updated_at :: "nat option"

record comment_row =
  c_user :: int
  c_program :: int
  c_message :: string

record audit_row =
  al_actor :: int
  al_action :: string
  al_target :: "int option"
  al_details :: "string option"

record db =
  users :: "user_row list"
  programs :: "program_row list"
  workouts :: "workout_row list"
  user_programs :: "assignment_row list"
  user_progress :: "progress_row list"
  comments :: "comment_row list"
  audit_logs :: "audit_row list"

text \<open>
  Modelled from the spec: the table declarations (the schema) are not part of the
  source, so the status that \<^verbatim>\<open>INSERT INTO user_progress (user_id, workout_id)\<close>
  leaves to the column default is taken from the data model of the specification:
  a progress entry is created pending.
\<close>

definition default_status :: string where
  "default_status = ''pending''"

text \<open>
  Modelled from the spec: the declaration of \<^verbatim>\<open>user_programs\<close> is not part of the
  source; \<^verbatim>\<open>INSERT INTO user_programs (user_id, program_id)\<close> gives the completion
  timestamp no value, and the specification creates an assignment with a null one.
\<close>

definition default_completed_at :: "nat option" where
  "default_completed_at = None"

text \<open>
  Modelled from the spec: the declaration of \<^verbatim>\<open>user_progress\<close> is not part of the
  source; the specification names no initial value for the update time of a progress
  entry, so a new entry has a null one.
\<close>

definition default_updated_at :: "nat option" where
  "default_updated_at = None"

section \<open>Requests, responses and the store's failures\<close>

text \<open>
  A response is the HTTP status and the JSON body. The two handlers that answer 201
  echo the created row.
\<close>

datatype body =
  ErrorBody string
  | MessageBody string
  | AssignedBody string assignment_row
  | CommentBody string comment_row

datatype response = Json nat body

fun status_of :: "response \<Rightarrow> nat" where
  "status_of (Json s b) = s"

text \<open>
  Every call of \<^verbatim>\<open>pool.query\<close> may reject (the connection is lost, the store
  refuses the statement). The calls of a handler are numbered from 0 in the order of
  the source text; \<open>fails k\<close> says that call \<open>k\<close> rejects, and a rejected statement
  changes nothing. The handler's \<^verbatim>\<open>catch\<close> block then answers 500. No handler opens a
  transaction, so the statements that ran before the rejected one stay applied.
  \<open>clock k\<close> is the value of \<^verbatim>\<open>NOW()\<close> in statement \<open>k\<close>.
\<close>

type_synonym faults = "nat \<Rightarrow> bool"

type_synonym clock = "nat \<Rightarrow> nat"

definition no_faults :: faults where
  "no_faults = (\<lambda>k. False)"

definition internal_error :: response where
  "internal_error = Json 500 (ErrorBody ''Internal server error'')"

text \<open>
  A numeric field of the request body is \<open>None\<close> when it is absent (or, after
  \<^verbatim>\<open>Number(...)\<close>, not a number). JavaScript's \<^verbatim>\<open>!x\<close> holds of an absent field, of
  0 and of the empty string.
\<close>

definition falsy_num :: "int option \<Rightarrow> bool" where
  "falsy_num x = (case x of None \<Rightarrow> True | Some n \<Rightarrow> n = 0)"

definition falsy_str :: "string option \<Rightarrow> bool" where
  "falsy_str x = (case x of None \<Rightarrow> True | Some s \<Rightarrow> s = [])"

section \<open>The SQL statements\<close>

definition select_assignment :: "int \<Rightarrow> int \<Rightarrow> db \<Rightarrow> assignment_row list" where
  "select_assignment u p d =
     filter (\<lambda>r. up_user r = u \<and> up_program r = p) (user_programs d)"

definition new_assignment :: "int \<Rightarrow> int \<Rightarrow> assignment_row" where
  "new_assignment u p =
     \<lparr>up_user = u, up_program = p, up_completed_at = default_completed_at\<rparr>"

definition insert_assignment :: "int \<Rightarrow> int \<Rightarrow> db \<Rightarrow> db" where
  "insert_assignment u p d =
     d\<lparr>user_programs := user_programs d @ [new_assignment u p]\<rparr>"

definition workouts_of :: "int \<Rightarrow> db \<Rightarrow> workout_row list" where
  "workouts_of p d = filter (\<lambda>w. w_program w = p) (workouts d)"

definition new_progress :: "int \<Rightarrow> workout_row \<Rightarrow> progress_row" where
  "new_progress u w =
     \<lparr>pr_user = u, pr_workout = w_id w, pr_status = default_status,
      pr_updated_at = default_updated_at\<rparr>"

text \<open>
  \<^verbatim>\<open>INSERT INTO user_progress (user_id, workout_id)
  SELECT $1, id FROM workouts WHERE program_id = $2\<close>
\<close>

definition insert_progress :: "int \<Rightarrow> int \<Rightarrow> db \<Rightarrow> db" where
  "insert_progress u p d =
     d\<lparr>user_progress := user_progress d @ map (new_progress u) (workouts_of p d)\<rparr>"

definition progress_matches :: "int \<Rightarrow> int \<Rightarrow> progress_row \<Rightarrow> bool" where
  "progress_matches u w e = (pr_user e = u \<and> pr_workout e = w)"

text \<open>
  \<^verbatim>\<open>UPDATE user_progress SET status = 'done', updated_at = NOW()
  WHERE user_id = $1 AND workout_id = $2 RETURNING *\<close>
\<close>

definition set_done :: "nat \<Rightarrow> int \<Rightarrow> int \<Rightarrow> db \<Rightarrow> db" where
  "set_done t u w d =
     d\<lparr>user_progress :=
         map (\<lambda>e. if progress_matches u w e
                   then e\<lparr>pr_status := ''done'', pr_updated_at := Some t\<rparr> else e)
             (user_progress d)\<rparr>"

definition set_done_count :: "int \<Rightarrow> int \<Rightarrow> db \<Rightarrow> nat" where
  "set_done_count u w d = length (filter (progress_matches u w) (user_progress d))"

definition select_program :: "int \<Rightarrow> db \<Rightarrow> int list" where
  "select_program w d = map w_program (filter (\<lambda>x. w_id x = w) (workouts d))"

text \<open>
  \<^verbatim>\<open>SELECT 1 FROM user_progress up JOIN workouts w ON up.workout_id = w.id
  WHERE up.user_id = $1 AND w.program_id = $2 AND up.status <> 'done' LIMIT 1\<close>
\<close>

definition pending_rows :: "int \<Rightarrow> int \<Rightarrow> db \<Rightarrow> (progress_row \<times> workout_row) list" where
  "pending_rows u p d =
     take 1 (filter (\<lambda>(e, w). pr_workout e = w_id w \<and> pr_user e = u
                               \<and> w_program w = p \<and> pr_status e \<noteq> ''done'')
                    (List.product (user_progress d) (workouts d)))"

text \<open>
  \<^verbatim>\<open>UPDATE user_programs SET completed_at = NOW()
  WHERE user_id = $1 AND program_id = $2\<close>
\<close>

definition set_completed :: "nat \<Rightarrow> int \<Rightarrow> int \<Rightarrow> db \<Rightarrow> db" where
  "set_completed t u p d =
     d\<lparr>user_programs :=
         map (\<lambda>r. if up_user r = u \<and> up_program r = p
                   then r\<lparr>up_completed_at := Some t\<rparr> else r)
             (user_programs d)\<rparr>"

definition select_comment :: "int \<Rightarrow> int \<Rightarrow> db \<Rightarrow> comment_row list" where
  "select_comment u p d = filter (\<lambda>c. c_user c = u \<and> c_program c = p) (comments d)"

definition new_comment :: "int \<Rightarrow> int \<Rightarrow> string \<Rightarrow> comment_row" where
  "new_comment u p m = \<lparr>c_user = u, c_program = p, c_message = m\<rparr>"

definition insert_comment :: "int \<Rightarrow> int \<Rightarrow> string \<Rightarrow> db \<Rightarrow> db" where
  "insert_comment u p m d = d\<lparr>comments := comments d @ [new_comment u p m]\<rparr>"

definition set_role :: "string \<Rightarrow> int \<Rightarrow> db \<Rightarrow> db" where
  "set_role r i d =
     d\<lparr>users := map (\<lambda>x. if u_id x = i then x\<lparr>u_role := r\<rparr> else x) (users d)\<rparr>"

definition set_password :: "string \<Rightarrow> int \<Rightarrow> db \<Rightarrow> db" where
  "set_password h i d =
     d\<lparr>users := map (\<lambda>x. if u_id x = i then x\<lparr>u_password := h\<rparr> else x) (users d)\<rparr>"

definition set_active :: "bool \<Rightarrow> int \<Rightarrow> db \<Rightarrow> db" where
  "set_active a i d =
     d\<lparr>users := map (\<lambda>x. if u_id x = i then x\<lparr>u_active := a\<rparr> else x) (users d)\<rparr>"

definition set_active_count :: "int \<Rightarrow> db \<Rightarrow> nat" where
  "set_active_count i d = length (filter (\<lambda>x. u_id x = i) (users d))"

definition insert_audit :: "int \<Rightarrow> string \<Rightarrow> int option \<Rightarrow> string option \<Rightarrow> db \<Rightarrow> db" where
  "insert_audit actor action target details d =
     d\<lparr>audit_logs := audit_logs d @
        [\<lparr>al_actor = actor, al_action = action, al_target = target,
          al_details = details\<rparr>]\<rparr>"

section \<open>The audit recorder\<close>

text \<open>
  \<^verbatim>\<open>pool.query\<close> either resolves with the new state or rejects with an error.
  \<^verbatim>\<open>logAudit\<close> awaits the insert inside \<^verbatim>\<open>try\<close>; its \<^verbatim>\<open>catch\<close> prints the error
  and falls through, so the function completes normally either way. The completion
  of the function is \<open>Inr ()\<close> for a normal return and \<open>Inl e\<close> for a thrown error.
\<close>

datatype db_error = QueryRejected

definition audit_query ::
  "bool \<Rightarrow> int \<Rightarrow> string \<Rightarrow> int option \<Rightarrow> string option \<Rightarrow> db \<Rightarrow> db_error + db" where
  "audit_query rejects actor action target details d =
     (if rejects then Inl QueryRejected
      else Inr (insert_audit actor action target details d))"

definition logAudit ::
  "bool \<Rightarrow> int \<Rightarrow> string \<Rightarrow> int option \<Rightarrow> string option \<Rightarrow> db
     \<Rightarrow> (db_error + unit) \<times> db" where
  "logAudit rejects actorId action targetId details d =
     (case audit_query rejects actorId action targetId details d of
        Inl err \<Rightarrow> (Inr (), d)
      | Inr d' \<Rightarrow> (Inr (), d'))"

section \<open>The handlers\<close>

text \<open>
  A handler takes the state and returns its response with the new state. Each one
  first tests the fields of the request body for falsy values; after that test the
  fields are present, so the \<open>None\<close> branches of the case distinctions that follow
  it are never taken.
\<close>

subsection \<open>POST /api/assign-program\<close>

definition assign_program ::
  "faults \<Rightarrow> db \<Rightarrow> int option \<Rightarrow> int option \<Rightarrow> response \<times> db" where
  "assign_program fails d user_id program_id =
     (if falsy_num user_id \<or> falsy_num program_id
      then (Json 400 (ErrorBody ''Missing or invalid user/program''), d)
      else case user_id of None \<Rightarrow> (internal_error, d) | Some u \<Rightarrow>
          (case program_id of None \<Rightarrow> (internal_error, d) | Some p \<Rightarrow>
        (if fails 0 then (internal_error, d)
         else if length (select_assignment u p d) > 0
         then (Json 409 (ErrorBody ''Program already assigned''), d)
         else if fails 1 then (internal_error, d)
         else let d1 = insert_assignment u p d in
         if fails 2 then (internal_error, d1)
         else (Json 201 (AssignedBody ''Program assigned and progress initialized''
                           (new_assignment u p)),
               insert_progress u p d1))))"

subsection \<open>PATCH /api/mark-workout\<close>

definition mark_workout ::
  "faults \<Rightarrow> clock \<Rightarrow> db \<Rightarrow> int option \<Rightarrow> int option \<Rightarrow> response \<times> db" where
  "mark_workout fails clock d user_id workout_id =
     (if falsy_num user_id \<or> falsy_num workout_id
      then (Json 400 (ErrorBody ''Missing required fields''), d)
      else case user_id of None \<Rightarrow> (internal_error, d) | Some u \<Rightarrow>
          (case workout_id of None \<Rightarrow> (internal_error, d) | Some w \<Rightarrow>
        (if fails 0 then (internal_error, d)
         else let d1 = set_done (clock 0) u w d in
         if set_done_count u w d = 0
         then (Json 404 (ErrorBody ''Progress entry not found''), d1)
         else if fails 1 then (internal_error, d1)
         else (case select_program w d1 of
           [] \<Rightarrow> (Json 404 (ErrorBody ''Workout not found''), d1)
         | programId # _ \<Rightarrow>
            (if fails 2 then (internal_error, d1)
             else if length (pending_rows u programId d1) = 0
             then (if fails 3 then (internal_error, d1)
                   else (Json 200 (MessageBody ''Workout marked as done''),
                         set_completed (clock 3) u programId d1))
             else (Json 200 (MessageBody ''Workout marked as done''), d1))))))"

subsection \<open>The admin gate and the admin handlers\<close>

text \<open>
  \<^verbatim>\<open>authMiddleware\<close> runs before every handler and is not part of the source; it
  leaves the verified token's payload in \<^verbatim>\<open>req.user\<close>. The routes are modelled
  from the point where it has passed the request on, with \<^verbatim>\<open>req.user\<close> as a
  parameter (\<open>None\<close> when it is undefined).
\<close>

record req_user =
  ru_user_id :: int
  ru_role :: string

text \<open>\<open>Some r\<close>: the middleware answered \<open>r\<close>; \<open>None\<close>: it called \<^verbatim>\<open>next()\<close>.\<close>

definition authAdmin :: "req_user option \<Rightarrow> response option" where
  "authAdmin user =
     (if map_option ru_role user \<noteq> Some ''super_admin''
      then Some (Json 403 (ErrorBody ''Access restricted''))
      else None)"

definition allowed :: "string list" where
  "allowed = [''client'', ''coach'', ''super_admin'']"

definition update_role ::
  "faults \<Rightarrow> db \<Rightarrow> req_user option \<Rightarrow> int \<Rightarrow> string option \<Rightarrow> response \<times> db" where
  "update_role fails d user userId role =
     (case authAdmin user of Some r \<Rightarrow> (r, d) | None \<Rightarrow>
       (case role of None \<Rightarrow> (Json 400 (ErrorBody ''Role is required''), d)
        | Some r \<Rightarrow>
         (if r = [] then (Json 400 (ErrorBody ''Role is required''), d)
          else if r \<notin> set allowed then (Json 400 (ErrorBody ''Invalid role''), d)
          else if fails 0 then (internal_error, d)
          else (Json 200 (MessageBody ''Role updated''), set_role r userId d))))"

text \<open>
  \<^verbatim>\<open>bcrypt.hash(new_password, 10)\<close> is the parameter \<open>hash\<close>, a total function: a
  rejection of the hashing itself is not modelled.
\<close>

definition reset_password ::
  "faults \<Rightarrow> (string \<Rightarrow> string) \<Rightarrow> db \<Rightarrow> req_user option \<Rightarrow> int \<Rightarrow> string option
     \<Rightarrow> response \<times> db" where
  "reset_password fails hash d user userId new_password =
     (case authAdmin user of Some r \<Rightarrow> (r, d) | None \<Rightarrow>
       (case new_password of
          None \<Rightarrow> (Json 400 (ErrorBody ''Password must be at least 6 characters''), d)
        | Some pw \<Rightarrow>
         (if pw = [] \<or> length pw < 6
          then (Json 400 (ErrorBody ''Password must be at least 6 characters''), d)
          else if fails 0 then (Json 500 (ErrorBody ''Failed to reset password''), d)
          else (Json 200 (MessageBody ''Password reset successfully''),
                set_password (hash pw) userId d))))"

definition toggle_user ::
  "faults \<Rightarrow> db \<Rightarrow> req_user option \<Rightarrow> int option \<Rightarrow> bool option \<Rightarrow> response \<times> db" where
  "toggle_user fails d user user_id active =
     (case authAdmin user of Some r \<Rightarrow> (r, d) | None \<Rightarrow>
       (if falsy_num user_id \<or> active = None
        then (Json 400 (ErrorBody ''Missing user_id or active flag''), d)
        else case user_id of None \<Rightarrow> (internal_error, d) | Some i \<Rightarrow>
            (case active of None \<Rightarrow> (internal_error, d) | Some a \<Rightarrow>
          (if fails 0 then (internal_error, d)
           else if set_active_count i d = 0
           then (Json 404 (ErrorBody ''User not found''), set_active a i d)
           else (Json 200 (MessageBody ''User status updated''), set_active a i d)))))"

subsection \<open>POST /api/comments\<close>

definition submit_comment ::
  "faults \<Rightarrow> db \<Rightarrow> int option \<Rightarrow> int option \<Rightarrow> string option \<Rightarrow> response \<times> db" where
  "submit_comment fails d user_id program_id message =
     (if falsy_num user_id \<or> falsy_num program_id \<or> falsy_str message
      then (Json 400 (ErrorBody ''Missing required fields''), d)
      else case user_id of None \<Rightarrow> (internal_error, d) | Some u \<Rightarrow>
          (case program_id of None \<Rightarrow> (internal_error, d) | Some p \<Rightarrow>
          (case message of None \<Rightarrow> (internal_error, d) | Some m \<Rightarrow>
        (if fails 0 then (internal_error, d)
         else (case select_assignment u p d of
           [] \<Rightarrow> (Json 400 (ErrorBody ''Program not assigned to this user''), d)
         | a # _ \<Rightarrow>
            (if up_completed_at a = None
             then (Json 400 (ErrorBody ''Program not completed yet''), d)
             else if fails 1 then (internal_error, d)
             else if length (select_comment u p d) > 0
             then (Json 400 (ErrorBody ''Feedback already submitted''), d)
             else if fails 2 then (internal_error, d)
             else (Json 201 (CommentBody ''Comment submitted successfully''
                               (new_comment u p m)),
                   insert_comment u p m d)))))))"


section \<open>What the properties observe\<close>

text \<open>No pair of a user and a program has two assignment rows.\<close>

definition unique_assignments :: "db \<Rightarrow> bool" where
  "unique_assignments d = distinct (map (\<lambda>r. (up_user r, up_program r)) (user_programs d))"

text \<open>The progress entries of user \<open>u\<close> on the workouts of program \<open>p\<close>.\<close>

definition entries_of :: "int \<Rightarrow> int \<Rightarrow> db \<Rightarrow> progress_row list" where
  "entries_of u p d =
     filter (\<lambda>e. pr_user e = u
                \<and> list_ex (\<lambda>w. w_id w = pr_workout e \<and> w_program w = p) (workouts d))
       (user_progress d)"

text \<open>The completion timestamps of the assignment rows of the pair \<open>(u, p)\<close>.\<close>

definition completion_of :: "int \<Rightarrow> int \<Rightarrow> db \<Rightarrow> nat option list" where
  "completion_of u p d = map up_completed_at (select_assignment u p d)"

section \<open>Example states\<close>

text \<open>
  The scenario of the specification: a client U1 (id 1), a coach C1 (id 2) who owns
  the program P1 (id 1) with the workouts W1 and W2 (ids 1 and 2) and the program P2
  (id 2) with no workout yet, and a super admin (id 3). \<open>pending_db\<close> is the state after P1 was assigned to U1, \<open>completed_db\<close> the
  state after both workouts were marked done at the times 90 and 100, and
  \<open>late_workout_db\<close> a state where a third workout was added to P1 after the
  assignment, W1 is done and W2 is not.
\<close>

definition empty_db :: db where
  "empty_db = \<lparr>users = [], programs = [], workouts = [], user_programs = [],
     user_progress = [], comments = [], audit_logs = []\<rparr>"

definition gym_db :: db where
  "gym_db = \<lparr>
     users = [\<lparr>u_id = 1, u_name = ''U1'', u_email = ''u1@gym'', u_password = ''h1'',
                u_role = ''client'', u_active = True\<rparr>,
              \<lparr>u_id = 2, u_name = ''C1'', u_email = ''c1@gym'', u_password = ''h2'',
                u_role = ''coach'', u_active = True\<rparr>,
              \<lparr>u_id = 3, u_name = ''A1'', u_email = ''a1@gym'', u_password = ''h3'',
                u_role = ''super_admin'', u_active = True\<rparr>],
     programs = [\<lparr>p_id = 1, p_coach = 2, p_name = ''P1'', p_description = ''strength''\<rparr>,
                 \<lparr>p_id = 2, p_coach = 2, p_name = ''P2'', p_description = ''draft''\<rparr>],
     workouts = [\<lparr>w_id = 1, w_program = 1, w_target_muscle = ''legs'',
                   w_description = ''squat'', w_sets = 3\<rparr>,
                 \<lparr>w_id = 2, w_program = 1, w_target_muscle = ''back'',
                   w_description = ''row'', w_sets = 4\<rparr>],
     user_programs = [], user_progress = [], comments = [], audit_logs = []\<rparr>"

definition pending_db :: db where
  "pending_db = gym_db\<lparr>
     user_programs := [\<lparr>up_user = 1, up_program = 1, up_completed_at = None\<rparr>],
     user_progress := [\<lparr>pr_user = 1, pr_workout = 1, pr_status = ''pending'',
                         pr_updated_at = None\<rparr>,
                       \<lparr>pr_user = 1, pr_workout = 2, pr_status = ''pending'',
                         pr_updated_at = None\<rparr>]\<rparr>"

definition completed_db :: db where
  "completed_db = gym_db\<lparr>
     user_programs := [\<lparr>up_user = 1, up_program = 1, up_completed_at = Some 100\<rparr>],
     user_progress := [\<lparr>pr_user = 1, pr_workout = 1, pr_status = ''done'',
                         pr_updated_at = Some 90\<rparr>,
                       \<lparr>pr_user = 1, pr_workout = 2, pr_status = ''done'',
                         pr_updated_at = Some 100\<rparr>]\<rparr>"

definition late_workout_db :: db where
  "late_workout_db = gym_db\<lparr>
     workouts := workouts gym_db @
       [\<lparr>w_id = 3, w_program = 1, w_target_muscle = ''arms'',
         w_description = ''curl'', w_sets = 3\<rparr>],
     user_programs := [\<lparr>up_user = 1, up_program = 1, up_completed_at = None\<rparr>],
     user_progress := [\<lparr>pr_user = 1, pr_workout = 1, pr_status = ''done'',
                         pr_updated_at = Some 90\<rparr>,
                       \<lparr>pr_user = 1, pr_workout = 2, pr_status = ''pending'',
                         pr_updated_at = None\<rparr>]\<rparr>"

text \<open>The store rejects exactly the \<open>n\<close>-th statement of the handler.\<close>

definition fault_at :: "nat \<Rightarrow> faults" where
  "fault_at n = (\<lambda>k. k = n)"

text \<open>The caller of the admin examples: the super admin, and the client.\<close>

definition admin_caller :: req_user where
  "admin_caller = \<lparr>ru_user_id = 3, ru_role = ''super_admin''\<rparr>"

definition client_caller :: req_user where
  "client_caller = \<lparr>ru_user_id = 1, ru_role = ''client''\<rparr>"

section \<open>Auxiliary facts\<close>

lemmas eval_defs = gym_db_def empty_db_def completed_db_def late_workout_db_def pending_db_def
  no_faults_def fault_at_def admin_caller_def client_caller_def
  assign_program_def mark_workout_def submit_comment_def update_role_def reset_password_def
  toggle_user_def authAdmin_def allowed_def falsy_num_def falsy_str_def internal_error_def
  select_assignment_def new_assignment_def insert_assignment_def workouts_of_def
  new_progress_def insert_progress_def progress_matches_def set_done_def set_done_count_def
  select_program_def pending_rows_def set_completed_def select_comment_def new_comment_def
  insert_comment_def set_role_def set_password_def set_active_def set_active_count_def
  default_status_def default_completed_at_def default_updated_at_def
  entries_of_def completion_of_def unique_assignments_def Let_def

lemma assign_program_unique:
  "unique_assignments d \<Longrightarrow>
   unique_assignments (snd (assign_program fails d user_id program_id))"
  by (auto simp: assign_program_def unique_assignments_def Let_def select_assignment_def
      insert_assignment_def insert_progress_def new_assignment_def filter_empty_conv
      split: option.splits)

lemma assign_program_duplicate:
  "u \<noteq> 0 \<Longrightarrow> p \<noteq> 0 \<Longrightarrow> select_assignment u p d \<noteq> [] \<Longrightarrow>
   snd (assign_program fails d (Some u) (Some p)) = d \<and>
   (\<not> fails 0 \<longrightarrow>
      fst (assign_program fails d (Some u) (Some p))
        = Json 409 (ErrorBody ''Program already assigned''))"
  by (simp add: assign_program_def falsy_num_def)

lemma assign_program_created:
  assumes "status_of (fst (assign_program fails d user_id program_id)) = 201"
  shows "\<exists>u p. user_id = Some u \<and> program_id = Some p \<and> u \<noteq> 0 \<and> p \<noteq> 0
     \<and> select_assignment u p d = []
     \<and> assign_program fails d user_id program_id =
        (Json 201 (AssignedBody ''Program assigned and progress initialized''
                     (new_assignment u p)),
         insert_progress u p (insert_assignment u p d))"
  using assms
  by (auto simp: assign_program_def falsy_num_def internal_error_def Let_def
      split: option.splits if_splits)

lemma entries_of_insert:
  "entries_of u p (insert_progress u p (insert_assignment u p d))
     = entries_of u p d @ map (new_progress u) (workouts_of p d)"
proof -
  have "filter (\<lambda>e. pr_user e = u
                   \<and> list_ex (\<lambda>w. w_id w = pr_workout e \<and> w_program w = p) (workouts d))
          (map (new_progress u) (workouts_of p d)) = map (new_progress u) (workouts_of p d)"
    by (rule filter_True) (auto simp: new_progress_def workouts_of_def list_ex_iff)
  then show ?thesis
    by (simp add: entries_of_def insert_progress_def insert_assignment_def workouts_of_def)
qed

lemma set_done_none: "set_done_count u w d = 0 \<Longrightarrow> set_done t u w d = d"
proof -
  assume "set_done_count u w d = 0"
  then have "\<forall>e \<in> set (user_progress d). \<not> progress_matches u w e"
    by (simp add: set_done_count_def filter_empty_conv)
  then have "map (\<lambda>e. if progress_matches u w e
                   then e\<lparr>pr_status := ''done'', pr_updated_at := Some t\<rparr> else e)
             (user_progress d) = user_progress d"
    by (simp add: map_idI)
  then show ?thesis by (simp add: set_done_def)
qed

lemma mark_workout_ok:
  assumes "u \<noteq> 0" "w \<noteq> 0" "\<not> fails 0" "\<not> fails 1" "\<not> fails 2" "\<not> fails 3"
    and "set_done_count u w d \<noteq> 0" and "select_program w d = pid # rest"
  shows "mark_workout fails clock d (Some u) (Some w) =
           (Json 200 (MessageBody ''Workout marked as done''),
            if pending_rows u pid (set_done (clock 0) u w d) = []
            then set_completed (clock 3) u pid (set_done (clock 0) u w d)
            else set_done (clock 0) u w d)"
proof -
  have "select_program w (set_done (clock 0) u w d) = pid # rest"
    using assms(8) by (simp add: select_program_def set_done_def)
  then show ?thesis
    using assms by (simp add: mark_workout_def falsy_num_def Let_def)
qed

lemma completion_set_completed:
  "completion_of u p (set_completed t u p d) = map (\<lambda>_. Some t) (completion_of u p d)"
proof -
  have "map up_completed_at (filter (\<lambda>r. up_user r = u \<and> up_program r = p)
          (map (\<lambda>r. if up_user r = u \<and> up_program r = p
                    then r\<lparr>up_completed_at := Some t\<rparr> else r) xs))
        = map (\<lambda>_. Some t)
            (map up_completed_at (filter (\<lambda>r. up_user r = u \<and> up_program r = p) xs))"
    for xs
    by (induction xs) auto
  then show ?thesis
    by (simp add: completion_of_def select_assignment_def set_completed_def)
qed

lemma completion_set_done: "completion_of u p (set_done t u' w d) = completion_of u p d"
  by (simp add: completion_of_def select_assignment_def set_done_def)

lemma pending_rows_all_done:
  assumes "\<forall>e \<in> set (entries_of u pid d). pr_workout e \<noteq> w \<longrightarrow> pr_status e = ''done''"
  shows "pending_rows u pid (set_done t u w d) = []"
proof -
  have "\<not> (pr_workout e' = w_id x \<and> pr_user e' = u \<and> w_program x = pid
            \<and> pr_status e' \<noteq> ''done'')"
    if e': "e' \<in> set (user_progress (set_done t u w d))" and x: "x \<in> set (workouts d)"
    for e' x
  proof -
    from e' obtain e where e: "e \<in> set (user_progress d)"
      and e'_def: "e' = (if progress_matches u w e
                   then e\<lparr>pr_status := ''done'', pr_updated_at := Some t\<rparr> else e)"
      by (auto simp: set_done_def)
    show ?thesis
    proof (cases "progress_matches u w e")
      case True
      then show ?thesis by (simp add: e'_def)
    next
      case False
      then have same: "e' = e" by (simp add: e'_def)
      show ?thesis
      proof
        assume h: "pr_workout e' = w_id x \<and> pr_user e' = u \<and> w_program x = pid
                   \<and> pr_status e' \<noteq> ''done''"
        with same x e have "e \<in> set (entries_of u pid d)"
          by (auto simp: entries_of_def list_ex_iff)
        moreover from h same False have "pr_workout e \<noteq> w"
          by (auto simp: progress_matches_def)
        ultimately have "pr_status e = ''done''" using assms by blast
        with h same show False by simp
      qed
    qed
  qed
  note nopend = this
  have wk: "workouts (set_done t u w d) = workouts d"
    by (simp add: set_done_def)
  have "\<forall>z \<in> set (List.product (user_progress (set_done t u w d)) (workouts d)).
          \<not> (case z of (e, x) \<Rightarrow> pr_workout e = w_id x \<and> pr_user e = u
                               \<and> w_program x = pid \<and> pr_status e \<noteq> ''done'')"
  proof
    fix z
    assume z: "z \<in> set (List.product (user_progress (set_done t u w d)) (workouts d))"
    obtain e x where zx: "z = (e, x)" by (cases z)
    with z have "e \<in> set (user_progress (set_done t u w d))" "x \<in> set (workouts d)"
      by simp_all
    from nopend [OF this]
    show "\<not> (case z of (e, x) \<Rightarrow> pr_workout e = w_id x \<and> pr_user e = u
                               \<and> w_program x = pid \<and> pr_status e \<noteq> ''done'')"
      by (simp add: zx)
  qed
  then have "filter (\<lambda>(e, x). pr_workout e = w_id x \<and> pr_user e = u
                               \<and> w_program x = pid \<and> pr_status e \<noteq> ''done'')
                    (List.product (user_progress (set_done t u w d)) (workouts d)) = []"
    unfolding filter_empty_conv .
  then show ?thesis by (simp add: pending_rows_def wk)
qed

lemma mark_workout_unique:
  "unique_assignments d \<Longrightarrow>
   unique_assignments (snd (mark_workout fails clock d user_id workout_id))"
proof -
  have k: "(\<lambda>r. (up_user r, up_program r)) \<circ>
             (\<lambda>r. if up_user r = u \<and> up_program r = p
                   then r\<lparr>up_completed_at := Some t\<rparr> else r)
           = (\<lambda>r. (up_user r, up_program r))" for u p t
    by (auto simp: fun_eq_iff)
  have a: "unique_assignments (set_done t u w d) = unique_assignments d" for t u w
    by (simp add: unique_assignments_def set_done_def)
  have b: "unique_assignments (set_completed t u p d) = unique_assignments d" for t u p d
    by (simp add: unique_assignments_def set_completed_def k)
  assume "unique_assignments d"
  then show ?thesis
    by (simp add: mark_workout_def Let_def a b split: option.splits list.splits)
qed

section \<open>Marking a workout done\<close>

text \<open>
  C1, as the code has it. Let user \<open>u\<close> have a progress entry for workout \<open>w\<close>, let
  \<open>w\<close> belong to program \<open>pid\<close>, and let every assignment row of \<open>(u, pid)\<close> already
  carry a completion timestamp. When the store accepts every statement, marking
  \<open>w\<close> done again answers 200 and the completion timestamp stays non-null. It is not
  written at most once: the update of \<^verbatim>\<open>user_programs\<close> has no guard on
  \<^verbatim>\<open>completed_at\<close>, so when no entry of \<open>u\<close> for \<open>pid\<close> is other than done after the
  status update, the timestamp is overwritten with the time of this call; otherwise
  it is left as it was.
\<close>

theorem mark_workout_restamps:
  assumes "u \<noteq> 0" "w \<noteq> 0" "\<not> fails 0" "\<not> fails 1" "\<not> fails 2" "\<not> fails 3"
    and "set_done_count u w d \<noteq> 0" and "select_program w d = pid # rest"
    and "\<forall>c \<in> set (completion_of u pid d). c \<noteq> None"
  shows "fst (mark_workout fails clock d (Some u) (Some w))
           = Json 200 (MessageBody ''Workout marked as done'')
       \<and> completion_of u pid (snd (mark_workout fails clock d (Some u) (Some w)))
           = (if pending_rows u pid (set_done (clock 0) u w d) = []
              then map (\<lambda>_. Some (clock 3)) (completion_of u pid d)
              else completion_of u pid d)
       \<and> (\<forall>c \<in> set (completion_of u pid (snd (mark_workout fails clock d (Some u) (Some w)))).
             c \<noteq> None)"
  using assms(9)
  by (auto simp: mark_workout_ok [OF assms(1-8)] completion_set_completed completion_set_done)

text \<open>
  The theorem at the completed program of the scenario: W2 is marked done again at
  time 200, and the stamp 100 becomes 200.
\<close>

theorem mark_workout_restamps_witness:
  "fst (mark_workout no_faults (\<lambda>k. 200) completed_db (Some 1) (Some 2))
     = Json 200 (MessageBody ''Workout marked as done'')
   \<and> completion_of 1 1 (snd (mark_workout no_faults (\<lambda>k. 200) completed_db (Some 1) (Some 2)))
       = [Some 200]
   \<and> completion_of 1 1 completed_db = [Some 100]
   \<and> pending_rows 1 1 (set_done 200 1 2 completed_db) = []"
proof -
  have h: "(1::int) \<noteq> 0" "(2::int) \<noteq> 0" "\<not> no_faults 0" "\<not> no_faults 1" "\<not> no_faults 2"
    "\<not> no_faults 3" "set_done_count 1 2 completed_db \<noteq> 0"
    "select_program 2 completed_db = 1 # []"
    "\<forall>c \<in> set (completion_of 1 1 completed_db). c \<noteq> None"
    by (simp_all add: eval_defs)
  have p: "pending_rows 1 1 (set_done 200 1 2 completed_db) = []"
    by (simp add: eval_defs)
  have c: "completion_of 1 1 completed_db = [Some 100]"
    by (simp add: eval_defs)
  from mark_workout_restamps [OF h, of "\<lambda>k. 200"] p c show ?thesis by simp
qed

text \<open>
  C1 as stated fails: the assignment of U1 to P1 is complete since time 100; the call
  for W2 at time 200 succeeds and changes the completion timestamp.
\<close>

theorem mark_workout_restamps_counterexample:
  "completion_of 1 1 completed_db = [Some 100]
   \<and> fst (mark_workout no_faults (\<lambda>k. 200) completed_db (Some 1) (Some 2))
       = Json 200 (MessageBody ''Workout marked as done'')
   \<and> completion_of 1 1 (snd (mark_workout no_faults (\<lambda>k. 200) completed_db (Some 1) (Some 2)))
       \<noteq> completion_of 1 1 completed_db"
  by (simp add: eval_defs)

text \<open>
  C10. The completion check joins the progress entries of the user with the
  workouts of the program, so a workout of the program for which the user has no
  entry cannot hold the completion back. Let user \<open>u\<close> have an entry for workout \<open>w\<close>
  of program \<open>pid\<close>, and let every other entry of \<open>u\<close> on a workout of \<open>pid\<close> be done
  (so that after the status update all of them are). When the store accepts every
  statement the call answers 200 and every assignment row of \<open>(u, pid)\<close> gets the
  completion timestamp of the call, whatever other workouts the program has.
\<close>

theorem mark_workout_completes_on_entries_only:
  assumes "u \<noteq> 0" "w \<noteq> 0" "\<not> fails 0" "\<not> fails 1" "\<not> fails 2" "\<not> fails 3"
    and "set_done_count u w d \<noteq> 0" and "select_program w d = pid # rest"
    and "\<forall>e \<in> set (entries_of u pid d). pr_workout e \<noteq> w \<longrightarrow> pr_status e = ''done''"
  shows "fst (mark_workout fails clock d (Some u) (Some w))
           = Json 200 (MessageBody ''Workout marked as done'')
       \<and> completion_of u pid (snd (mark_workout fails clock d (Some u) (Some w)))
           = map (\<lambda>_. Some (clock 3)) (completion_of u pid d)"
  by (simp add: mark_workout_ok [OF assms(1-8)] pending_rows_all_done [OF assms(9)]
      completion_set_completed completion_set_done)

text \<open>
  The theorem in a state where P1 has three workouts and U1 has entries for the
  first two only: marking W2 done completes the assignment, although W3 was never
  marked done.
\<close>

theorem mark_workout_completes_on_entries_only_witness:
  "fst (mark_workout no_faults (\<lambda>k. 200) late_workout_db (Some 1) (Some 2))
     = Json 200 (MessageBody ''Workout marked as done'')
   \<and> completion_of 1 1 (snd (mark_workout no_faults (\<lambda>k. 200) late_workout_db (Some 1) (Some 2)))
       = [Some 200]
   \<and> map w_id (workouts_of 1 late_workout_db) = [1, 2, 3]
   \<and> map pr_workout (entries_of 1 1 late_workout_db) = [1, 2]"
proof -
  have h: "(1::int) \<noteq> 0" "(2::int) \<noteq> 0" "\<not> no_faults 0" "\<not> no_faults 1" "\<not> no_faults 2"
    "\<not> no_faults 3" "set_done_count 1 2 late_workout_db \<noteq> 0"
    "select_program 2 late_workout_db = 1 # []"
    "\<forall>e \<in> set (entries_of 1 1 late_workout_db).
       pr_workout e \<noteq> 2 \<longrightarrow> pr_status e = ''done''"
    by (simp_all add: eval_defs)
  have c: "completion_of 1 1 late_workout_db = [None]"
    "map w_id (workouts_of 1 late_workout_db) = [1, 2, 3]"
    "map pr_workout (entries_of 1 1 late_workout_db) = [1, 2]"
    by (simp_all add: eval_defs)
  from mark_workout_completes_on_entries_only [OF h, of "\<lambda>k. 200"] c show ?thesis by simp
qed

section \<open>Assigning a program\<close>

text \<open>
  C6. A call of the assign handler for user \<open>u\<close> and program \<open>p\<close> that answers 201
  appends one assignment row for the pair, with a null completion timestamp, and it
  is the only assignment row of the pair; it appends one progress entry of \<open>u\<close> for
  each workout of \<open>p\<close>, in the order of the workouts, each pending. When \<open>u\<close> had no
  entry on a workout of \<open>p\<close> before, the entries of \<open>u\<close> on \<open>p\<close> are afterwards exactly
  these: as many as \<open>p\<close> has workouts, one per workout, all pending. Nothing stamps
  the assignment in this handler, so a program with no workouts is assigned with a
  null completion timestamp as well.
\<close>

theorem assign_program_initialises_progress:
  assumes ok: "status_of (fst (assign_program fails d (Some u) (Some p))) = 201"
  shows "user_programs (snd (assign_program fails d (Some u) (Some p)))
           = user_programs d @ [\<lparr>up_user = u, up_program = p, up_completed_at = None\<rparr>]
       \<and> select_assignment u p (snd (assign_program fails d (Some u) (Some p)))
           = [\<lparr>up_user = u, up_program = p, up_completed_at = None\<rparr>]
       \<and> user_progress (snd (assign_program fails d (Some u) (Some p)))
           = user_progress d @
             map (\<lambda>w. \<lparr>pr_user = u, pr_workout = w_id w, pr_status = ''pending'',
                        pr_updated_at = None\<rparr>) (workouts_of p d)
       \<and> (entries_of u p d = [] \<longrightarrow>
            map pr_workout (entries_of u p (snd (assign_program fails d (Some u) (Some p))))
              = map w_id (workouts_of p d)
            \<and> length (entries_of u p (snd (assign_program fails d (Some u) (Some p))))
              = length (workouts_of p d)
            \<and> (\<forall>e \<in> set (entries_of u p (snd (assign_program fails d (Some u) (Some p)))).
                  pr_status e = ''pending''))"
proof -
  from assign_program_created [OF ok]
  have none: "select_assignment u p d = []"
    and res: "snd (assign_program fails d (Some u) (Some p))
                = insert_progress u p (insert_assignment u p d)"
    by auto
  have a: "user_programs (insert_progress u p (insert_assignment u p d))
             = user_programs d @ [\<lparr>up_user = u, up_program = p, up_completed_at = None\<rparr>]"
    by (simp add: insert_progress_def insert_assignment_def new_assignment_def
        default_completed_at_def)
  have b: "select_assignment u p (insert_progress u p (insert_assignment u p d))
             = [\<lparr>up_user = u, up_program = p, up_completed_at = None\<rparr>]"
    using none unfolding select_assignment_def a by simp
  have c: "user_progress (insert_progress u p (insert_assignment u p d))
             = user_progress d @
               map (\<lambda>w. \<lparr>pr_user = u, pr_workout = w_id w, pr_status = ''pending'',
                          pr_updated_at = None\<rparr>) (workouts_of p d)"
    by (simp add: insert_progress_def insert_assignment_def new_progress_def workouts_of_def
        default_status_def default_updated_at_def)
  have e: "entries_of u p d = [] \<Longrightarrow>
           entries_of u p (insert_progress u p (insert_assignment u p d))
             = map (new_progress u) (workouts_of p d)"
    by (simp add: entries_of_insert)
  have f: "entries_of u p d = [] \<Longrightarrow>
           map pr_workout (entries_of u p (insert_progress u p (insert_assignment u p d)))
             = map w_id (workouts_of p d)"
    by (simp add: e new_progress_def)
  have g: "entries_of u p d = [] \<Longrightarrow>
           \<forall>x \<in> set (entries_of u p (insert_progress u p (insert_assignment u p d))).
             pr_status x = ''pending''"
    by (simp add: e new_progress_def default_status_def)
  show ?thesis
    unfolding res using a b c e f g by simp
qed

text \<open>
  The theorem at the scenario: P1 with its two workouts is assigned to U1; and at
  the program P2, which has no workout, where the assignment is created with a null
  completion timestamp and no entry.
\<close>

theorem assign_program_initialises_progress_witness:
  "status_of (fst (assign_program no_faults gym_db (Some 1) (Some 1))) = 201
   \<and> completion_of 1 1 (snd (assign_program no_faults gym_db (Some 1) (Some 1))) = [None]
   \<and> map pr_workout (entries_of 1 1 (snd (assign_program no_faults gym_db (Some 1) (Some 1))))
       = [1, 2]
   \<and> map pr_status (entries_of 1 1 (snd (assign_program no_faults gym_db (Some 1) (Some 1))))
       = [''pending'', ''pending'']
   \<and> map p_id (programs gym_db) = [1, 2] \<and> workouts_of 2 gym_db = []
   \<and> status_of (fst (assign_program no_faults gym_db (Some 1) (Some 2))) = 201
   \<and> completion_of 1 2 (snd (assign_program no_faults gym_db (Some 1) (Some 2))) = [None]
   \<and> user_progress (snd (assign_program no_faults gym_db (Some 1) (Some 2))) = []"
proof -
  let ?d = "snd (assign_program no_faults gym_db (Some 1) (Some 1))"
  let ?z = "snd (assign_program no_faults gym_db (Some 1) (Some 2))"
  have h: "status_of (fst (assign_program no_faults gym_db (Some 1) (Some 1))) = 201"
    and hz: "status_of (fst (assign_program no_faults gym_db (Some 1) (Some 2))) = 201"
    by (simp_all add: eval_defs)
  have e: "entries_of 1 1 gym_db = []" "map w_id (workouts_of 1 gym_db) = [1, 2]"
    "workouts_of 2 gym_db = []" "user_progress gym_db = []"
    "map p_id (programs gym_db) = [1, 2]"
    by (simp_all add: eval_defs)
  from assign_program_initialises_progress [OF h] e
  have a: "select_assignment 1 1 ?d = [\<lparr>up_user = 1, up_program = 1, up_completed_at = None\<rparr>]"
    and b: "map pr_workout (entries_of 1 1 ?d) = [1, 2]"
    and c: "\<forall>e \<in> set (entries_of 1 1 ?d). pr_status e = ''pending''"
    by simp_all
  from b have "length (entries_of 1 1 ?d) = 2"
    using length_map [of pr_workout "entries_of 1 1 ?d"] by simp
  then obtain x y where xy: "entries_of 1 1 ?d = [x, y]"
    by (auto simp: length_Suc_conv numeral_2_eq_2)
  with c have s: "map pr_status (entries_of 1 1 ?d) = [''pending'', ''pending'']"
    by simp
  from assign_program_initialises_progress [OF hz] e
  have az: "select_assignment 1 2 ?z = [\<lparr>up_user = 1, up_program = 2, up_completed_at = None\<rparr>]"
    and bz: "user_progress ?z = []"
    by simp_all
  from h hz a b s az bz e(3,5) show ?thesis by (simp add: completion_of_def)
qed

text \<open>
  C5. The table of assignments never holds two rows for one pair of a user and a
  program: the assign handler and the mark handler, the only ones that write the
  table, keep this true. A call of the assign handler for a pair that already has an
  assignment leaves every table as it was, whatever the store does, and answers
  409 (Conflict) once the store has answered the lookup of the pair.
\<close>

theorem assign_program_rejects_duplicate:
  "(unique_assignments d \<longrightarrow>
      unique_assignments (snd (assign_program fails d user_id program_id))
      \<and> unique_assignments (snd (mark_workout fails clock d user_id workout_id)))
   \<and> (u \<noteq> 0 \<and> p \<noteq> 0 \<and> select_assignment u p d \<noteq> [] \<longrightarrow>
        snd (assign_program fails d (Some u) (Some p)) = d
        \<and> (\<not> fails 0 \<longrightarrow>
             fst (assign_program fails d (Some u) (Some p))
               = Json 409 (ErrorBody ''Program already assigned'')))"
  using assign_program_unique [of d fails user_id program_id]
    mark_workout_unique [of d fails clock user_id workout_id]
    assign_program_duplicate [of u p d fails]
  by blast

text \<open>The theorem at the scenario: P1 is assigned to U1 a second time.\<close>

theorem assign_program_rejects_duplicate_witness:
  "unique_assignments pending_db
   \<and> select_assignment 1 1 pending_db \<noteq> []
   \<and> assign_program no_faults pending_db (Some 1) (Some 1)
       = (Json 409 (ErrorBody ''Program already assigned''), pending_db)
   \<and> unique_assignments (snd (assign_program no_faults pending_db (Some 1) (Some 1)))
   \<and> unique_assignments (snd (mark_workout no_faults (\<lambda>k. 200) pending_db (Some 1) (Some 1)))"
proof -
  have h: "unique_assignments pending_db" "(1::int) \<noteq> 0"
    "select_assignment 1 1 pending_db \<noteq> []" "\<not> no_faults 0"
    by (simp_all add: eval_defs)
  from assign_program_rejects_duplicate
         [of pending_db no_faults "Some 1" "Some 1" "\<lambda>k. 200" "Some 1" 1 1] h
  show ?thesis by (simp add: prod_eq_iff)
qed

text \<open>
  C4, as the code has it. The assign handler looks up neither the user nor the
  program, and it never answers 404 (NotFound), whatever the identifiers and
  whatever the store does. For identifiers that are not falsy and a pair that has no
  assignment yet (in particular when the user or the program does not exist): when
  the store accepts the statements the call answers 201 and creates the assignment
  row, with one progress entry for each workout row that carries the program
  identifier; when the store rejects the insert of the assignment the call answers
  500 (Internal) and creates no row.
\<close>

theorem assign_program_never_not_found:
  "status_of (fst (assign_program fails d user_id program_id)) \<noteq> 404
   \<and> (u \<noteq> 0 \<and> p \<noteq> 0 \<and> select_assignment u p d = []
        \<and> \<not> fails 0 \<and> \<not> fails 1 \<and> \<not> fails 2 \<longrightarrow>
        assign_program fails d (Some u) (Some p)
          = (Json 201 (AssignedBody ''Program assigned and progress initialized''
                         (new_assignment u p)),
             insert_progress u p (insert_assignment u p d)))
   \<and> (u \<noteq> 0 \<and> p \<noteq> 0 \<and> select_assignment u p d = [] \<and> \<not> fails 0 \<and> fails 1 \<longrightarrow>
        assign_program fails d (Some u) (Some p) = (internal_error, d))"
  by (simp add: assign_program_def falsy_num_def internal_error_def Let_def
      split: option.splits)

text \<open>
  The theorem on the empty database, for the user 5 and the program 7, which do not
  exist: with a store that accepts everything, and with one that rejects the insert
  of the assignment.
\<close>

theorem assign_program_never_not_found_witness:
  "users empty_db = [] \<and> programs empty_db = []
   \<and> status_of (fst (assign_program no_faults empty_db (Some 5) (Some 7))) \<noteq> 404
   \<and> user_programs (snd (assign_program no_faults empty_db (Some 5) (Some 7)))
       = [\<lparr>up_user = 5, up_program = 7, up_completed_at = None\<rparr>]
   \<and> assign_program (fault_at 1) empty_db (Some 5) (Some 7) = (internal_error, empty_db)"
proof -
  have h: "(5::int) \<noteq> 0 \<and> (7::int) \<noteq> 0 \<and> select_assignment 5 7 empty_db = []
        \<and> \<not> no_faults 0 \<and> \<not> no_faults 1 \<and> \<not> no_faults 2"
    and g: "(5::int) \<noteq> 0 \<and> (7::int) \<noteq> 0 \<and> select_assignment 5 7 empty_db = []
        \<and> \<not> fault_at 1 0 \<and> fault_at 1 1"
    by (simp_all add: eval_defs)
  have e: "users empty_db = []" "programs empty_db = []"
    "user_programs (insert_progress 5 7 (insert_assignment 5 7 empty_db))
       = [\<lparr>up_user = 5, up_program = 7, up_completed_at = None\<rparr>]"
    by (simp_all add: eval_defs)
  from assign_program_never_not_found [of no_faults empty_db "Some 5" "Some 7" 5 7] h
    assign_program_never_not_found [of "fault_at 1" empty_db "Some 5" "Some 7" 5 7] g e
  show ?thesis by simp
qed

text \<open>
  C4 as stated fails: on the empty database neither the user 5 nor the program 7
  exists, and the call answers 201 and leaves an assignment row for them. With a
  store that refuses the insert of the assignment the answer is 500, not 404.
\<close>

theorem assign_program_unknown_ids_counterexample:
  "users empty_db = [] \<and> programs empty_db = []
   \<and> fst (assign_program no_faults empty_db (Some 5) (Some 7))
       = Json 201 (AssignedBody ''Program assigned and progress initialized''
                     \<lparr>up_user = 5, up_program = 7, up_completed_at = None\<rparr>)
   \<and> user_programs (snd (assign_program no_faults empty_db (Some 5) (Some 7)))
       = [\<lparr>up_user = 5, up_program = 7, up_completed_at = None\<rparr>]
   \<and> status_of (fst (assign_program (fault_at 1) empty_db (Some 5) (Some 7))) = 500"
  by (simp add: eval_defs)

section \<open>No transaction around the statements\<close>

text \<open>
  C2, as the code has it. The handlers run their statements one by one, with no
  transaction. In the assign handler, when the bulk insert of the progress entries
  is rejected after the insert of the assignment, the call answers 500 (Internal),
  the assignment row stays and no progress entry is added; a call that fails before
  that (falsy identifier, rejected lookup, existing assignment, rejected insert of
  the assignment) does not answer 201 and leaves the state as it was. In the mark
  handler, once the status update has run, every answer other than 200 (a rejected
  later statement, or no workout row) leaves the status update in place; a call
  that fails before it or in it does not answer 200 and leaves the state as it was.
\<close>

theorem statements_commit_separately:
  "(u \<noteq> 0 \<and> p \<noteq> 0 \<and> select_assignment u p d = []
      \<and> \<not> fails 0 \<and> \<not> fails 1 \<and> fails 2 \<longrightarrow>
      assign_program fails d (Some u) (Some p) = (internal_error, insert_assignment u p d))
   \<and> (u = 0 \<or> p = 0 \<or> fails 0 \<or> fails 1 \<or> select_assignment u p d \<noteq> [] \<longrightarrow>
        status_of (fst (assign_program fails d (Some u) (Some p))) \<noteq> 201
        \<and> snd (assign_program fails d (Some u) (Some p)) = d)
   \<and> (u \<noteq> 0 \<and> w \<noteq> 0 \<and> \<not> fails 0
        \<and> status_of (fst (mark_workout fails clock d (Some u) (Some w))) \<noteq> 200 \<longrightarrow>
        snd (mark_workout fails clock d (Some u) (Some w)) = set_done (clock 0) u w d)
   \<and> (u = 0 \<or> w = 0 \<or> fails 0 \<longrightarrow>
        status_of (fst (mark_workout fails clock d (Some u) (Some w))) \<noteq> 200
        \<and> snd (mark_workout fails clock d (Some u) (Some w)) = d)"
proof -
  have a: "u \<noteq> 0 \<and> p \<noteq> 0 \<and> select_assignment u p d = []
      \<and> \<not> fails 0 \<and> \<not> fails 1 \<and> fails 2 \<longrightarrow>
      assign_program fails d (Some u) (Some p) = (internal_error, insert_assignment u p d)"
    by (simp add: assign_program_def falsy_num_def Let_def)
  have b: "u = 0 \<or> p = 0 \<or> fails 0 \<or> fails 1 \<or> select_assignment u p d \<noteq> [] \<longrightarrow>
        status_of (fst (assign_program fails d (Some u) (Some p))) \<noteq> 201
        \<and> snd (assign_program fails d (Some u) (Some p)) = d"
    by (simp add: assign_program_def falsy_num_def internal_error_def Let_def)
  have c: "u \<noteq> 0 \<and> w \<noteq> 0 \<and> \<not> fails 0
        \<and> status_of (fst (mark_workout fails clock d (Some u) (Some w))) \<noteq> 200 \<longrightarrow>
        snd (mark_workout fails clock d (Some u) (Some w)) = set_done (clock 0) u w d"
    by (simp add: mark_workout_def falsy_num_def internal_error_def Let_def
        split: list.splits)
  have e: "u = 0 \<or> w = 0 \<or> fails 0 \<longrightarrow>
        status_of (fst (mark_workout fails clock d (Some u) (Some w))) \<noteq> 200
        \<and> snd (mark_workout fails clock d (Some u) (Some w)) = d"
    by (simp add: mark_workout_def falsy_num_def internal_error_def Let_def)
  from a b c e show ?thesis by blast
qed

text \<open>
  The theorem at the scenario, with a store that rejects the third statement of a
  handler, and with one that rejects the first.
\<close>

theorem statements_commit_separately_witness:
  "assign_program (fault_at 2) gym_db (Some 1) (Some 1)
     = (internal_error, insert_assignment 1 1 gym_db)
   \<and> insert_assignment 1 1 gym_db \<noteq> gym_db
   \<and> assign_program (fault_at 0) gym_db (Some 1) (Some 1) = (internal_error, gym_db)
   \<and> mark_workout (fault_at 2) (\<lambda>k. 200) pending_db (Some 1) (Some 1)
       = (internal_error, set_done 200 1 1 pending_db)
   \<and> set_done 200 1 1 pending_db \<noteq> pending_db
   \<and> mark_workout (fault_at 0) (\<lambda>k. 200) pending_db (Some 1) (Some 1)
       = (internal_error, pending_db)"
proof -
  have h2: "(1::int) \<noteq> 0 \<and> (1::int) \<noteq> 0 \<and> select_assignment 1 1 gym_db = []
      \<and> \<not> fault_at 2 0 \<and> \<not> fault_at 2 1 \<and> fault_at 2 2"
    by (simp add: eval_defs)
  have m2: "(1::int) \<noteq> 0 \<and> (1::int) \<noteq> 0 \<and> \<not> fault_at 2 0
      \<and> status_of (fst (mark_workout (fault_at 2) (\<lambda>k. 200) pending_db (Some 1) (Some 1)))
          \<noteq> 200"
    and f2: "fst (mark_workout (fault_at 2) (\<lambda>k. 200) pending_db (Some 1) (Some 1))
          = internal_error"
    by (simp_all add: eval_defs)
  have h0: "(1::int) = 0 \<or> (1::int) = 0 \<or> fault_at 0 0 \<or> fault_at 0 1
      \<or> select_assignment 1 1 gym_db \<noteq> []"
    and m0: "(1::int) = 0 \<or> (1::int) = 0 \<or> fault_at 0 0"
    and f0: "fst (assign_program (fault_at 0) gym_db (Some 1) (Some 1)) = internal_error"
      "fst (mark_workout (fault_at 0) (\<lambda>k. 200) pending_db (Some 1) (Some 1)) = internal_error"
    by (simp_all add: eval_defs)
  have ne: "insert_assignment 1 1 gym_db \<noteq> gym_db" "set_done 200 1 1 pending_db \<noteq> pending_db"
  proof -
    have "user_programs (insert_assignment 1 1 gym_db) \<noteq> user_programs gym_db"
      by (simp add: eval_defs)
    then show "insert_assignment 1 1 gym_db \<noteq> gym_db" by auto
    have "user_progress (set_done 200 1 1 pending_db) \<noteq> user_progress pending_db"
      by (simp add: eval_defs)
    then show "set_done 200 1 1 pending_db \<noteq> pending_db" by auto
  qed
  from statements_commit_separately [of 1 1 gym_db "fault_at 2" 1 "\<lambda>k. 200"] h2
  have a: "assign_program (fault_at 2) gym_db (Some 1) (Some 1)
     = (internal_error, insert_assignment 1 1 gym_db)" by blast
  from statements_commit_separately [of 1 1 pending_db "fault_at 2" 1 "\<lambda>k. 200"] m2
  have c: "snd (mark_workout (fault_at 2) (\<lambda>k. 200) pending_db (Some 1) (Some 1))
     = set_done 200 1 1 pending_db" by blast
  from statements_commit_separately [of 1 1 gym_db "fault_at 0" 1 "\<lambda>k. 200"] h0
  have b: "snd (assign_program (fault_at 0) gym_db (Some 1) (Some 1)) = gym_db" by blast
  from statements_commit_separately [of 1 1 pending_db "fault_at 0" 1 "\<lambda>k. 200"] m0
  have e: "snd (mark_workout (fault_at 0) (\<lambda>k. 200) pending_db (Some 1) (Some 1)) = pending_db"
    by blast
  from a b c e f0 f2 ne show ?thesis by (simp add: prod_eq_iff)
qed

text \<open>
  C2 as stated fails. The bulk insert is rejected after the insert of the
  assignment: the call answers 500 and the assignment row of U1 and P1 is there,
  with no progress entry. The lookup of the workout is rejected after the status
  update: the call answers 500 and the entry of U1 for W1 is done.
\<close>

theorem statements_commit_separately_counterexample:
  "user_programs gym_db = []
   \<and> fst (assign_program (fault_at 2) gym_db (Some 1) (Some 1)) = internal_error
   \<and> user_programs (snd (assign_program (fault_at 2) gym_db (Some 1) (Some 1)))
       = [\<lparr>up_user = 1, up_program = 1, up_completed_at = None\<rparr>]
   \<and> user_progress (snd (assign_program (fault_at 2) gym_db (Some 1) (Some 1))) = []
   \<and> map pr_status (user_progress pending_db) = [''pending'', ''pending'']
   \<and> fst (mark_workout (fault_at 1) (\<lambda>k. 200) pending_db (Some 1) (Some 1)) = internal_error
   \<and> map pr_status (user_progress
         (snd (mark_workout (fault_at 1) (\<lambda>k. 200) pending_db (Some 1) (Some 1))))
       = [''done'', ''pending'']"
  by (simp add: eval_defs)

section \<open>Submitting feedback\<close>

text \<open>
  C7. For identifiers and a message that are not falsy, and a store that accepts the
  statements, the comment handler checks in this order, each check with an error
  message of its own and none changing the state (all three answer status 400): no
  assignment of the pair, whatever else holds; otherwise a null completion
  timestamp on the first assignment row, whether or not a comment exists;
  otherwise an existing comment of the pair. When all three checks pass the call
  answers 201 and appends exactly one comment row, and a second submission for the
  pair is then refused as already submitted.
\<close>

theorem submit_comment_preconditions:
  assumes "u \<noteq> 0" "p \<noteq> 0" "m \<noteq> []" "m' \<noteq> []" "\<not> fails 0" "\<not> fails 1" "\<not> fails 2"
  shows "(select_assignment u p d = [] \<longrightarrow>
            submit_comment fails d (Some u) (Some p) (Some m)
              = (Json 400 (ErrorBody ''Program not assigned to this user''), d))
       \<and> (select_assignment u p d = a # rest \<and> up_completed_at a = None \<longrightarrow>
            submit_comment fails d (Some u) (Some p) (Some m)
              = (Json 400 (ErrorBody ''Program not completed yet''), d))
       \<and> (select_assignment u p d = a # rest \<and> up_completed_at a \<noteq> None
            \<and> select_comment u p d \<noteq> [] \<longrightarrow>
            submit_comment fails d (Some u) (Some p) (Some m)
              = (Json 400 (ErrorBody ''Feedback already submitted''), d))
       \<and> (select_assignment u p d = a # rest \<and> up_completed_at a \<noteq> None
            \<and> select_comment u p d = [] \<longrightarrow>
            submit_comment fails d (Some u) (Some p) (Some m)
              = (Json 201 (CommentBody ''Comment submitted successfully''
                             \<lparr>c_user = u, c_program = p, c_message = m\<rparr>),
                 insert_comment u p m d)
            \<and> comments (insert_comment u p m d)
              = comments d @ [\<lparr>c_user = u, c_program = p, c_message = m\<rparr>]
            \<and> submit_comment fails (insert_comment u p m d) (Some u) (Some p) (Some m')
              = (Json 400 (ErrorBody ''Feedback already submitted''), insert_comment u p m d))"
proof -
  have sa: "select_assignment u p (insert_comment u p m d) = select_assignment u p d"
    by (simp add: select_assignment_def insert_comment_def)
  have sc: "select_comment u p (insert_comment u p m d) \<noteq> []"
    by (simp add: select_comment_def insert_comment_def new_comment_def)
  have ins: "comments (insert_comment u p m d)
              = comments d @ [\<lparr>c_user = u, c_program = p, c_message = m\<rparr>]"
    by (simp add: insert_comment_def new_comment_def)
  show ?thesis
    using assms sc ins
    by (simp add: submit_comment_def falsy_num_def falsy_str_def sa new_comment_def)
qed

text \<open>
  The theorem along the scenario: feedback of U1 on P1 before the assignment,
  before the completion, after it, and once more.
\<close>

theorem submit_comment_preconditions_witness:
  "submit_comment no_faults gym_db (Some 1) (Some 1) (Some ''great'')
     = (Json 400 (ErrorBody ''Program not assigned to this user''), gym_db)
   \<and> submit_comment no_faults pending_db (Some 1) (Some 1) (Some ''great'')
     = (Json 400 (ErrorBody ''Program not completed yet''), pending_db)
   \<and> submit_comment no_faults completed_db (Some 1) (Some 1) (Some ''great'')
     = (Json 201 (CommentBody ''Comment submitted successfully''
                    \<lparr>c_user = 1, c_program = 1, c_message = ''great''\<rparr>),
        insert_comment 1 1 ''great'' completed_db)
   \<and> comments (insert_comment 1 1 ''great'' completed_db)
     = [\<lparr>c_user = 1, c_program = 1, c_message = ''great''\<rparr>]
   \<and> submit_comment no_faults (insert_comment 1 1 ''great'' completed_db)
        (Some 1) (Some 1) (Some ''again'')
     = (Json 400 (ErrorBody ''Feedback already submitted''),
        insert_comment 1 1 ''great'' completed_db)"
proof -
  let ?a = "\<lparr>up_user = 1, up_program = 1, up_completed_at = None\<rparr>"
  let ?b = "\<lparr>up_user = 1, up_program = 1, up_completed_at = Some 100\<rparr>"
  let ?c = "insert_comment 1 1 ''great'' completed_db"
  have h: "(1::int) \<noteq> 0" "(1::int) \<noteq> 0" "''great'' \<noteq> []" "''again'' \<noteq> []"
    "\<not> no_faults 0" "\<not> no_faults 1" "\<not> no_faults 2"
    by (simp_all add: no_faults_def)
  have g: "select_assignment 1 1 gym_db = []"
    and n: "select_assignment 1 1 pending_db = ?a # [] \<and> up_completed_at ?a = None"
    and k: "select_assignment 1 1 completed_db = ?b # [] \<and> up_completed_at ?b \<noteq> None
            \<and> select_comment 1 1 completed_db = []"
    and j: "select_assignment 1 1 ?c = ?b # [] \<and> up_completed_at ?b \<noteq> None
            \<and> select_comment 1 1 ?c \<noteq> []"
    and e: "comments completed_db = []"
    by (simp_all add: eval_defs)
  from submit_comment_preconditions [OF h, of gym_db ?a "[]"] g
  have 1: "submit_comment no_faults gym_db (Some 1) (Some 1) (Some ''great'')
     = (Json 400 (ErrorBody ''Program not assigned to this user''), gym_db)"
    by blast
  from submit_comment_preconditions [OF h, of pending_db ?a "[]"] n
  have 2: "submit_comment no_faults pending_db (Some 1) (Some 1) (Some ''great'')
     = (Json 400 (ErrorBody ''Program not completed yet''), pending_db)"
    by blast
  from submit_comment_preconditions [OF h, of completed_db ?b "[]"] k
  have 3: "submit_comment no_faults completed_db (Some 1) (Some 1) (Some ''great'')
     = (Json 201 (CommentBody ''Comment submitted successfully''
                    \<lparr>c_user = 1, c_program = 1, c_message = ''great''\<rparr>), ?c)"
    and 4: "comments ?c = comments completed_db
              @ [\<lparr>c_user = 1, c_program = 1, c_message = ''great''\<rparr>]"
    and 5: "submit_comment no_faults ?c (Some 1) (Some 1) (Some ''again'')
     = (Json 400 (ErrorBody ''Feedback already submitted''), ?c)"
    by blast+
  from submit_comment_preconditions [OF h(1,2,4,4,5,6,7), of ?c ?b "[]"] j
  have 6: "submit_comment no_faults ?c (Some 1) (Some 1) (Some ''again'')
     = (Json 400 (ErrorBody ''Feedback already submitted''), ?c)"
    by blast
  from 1 2 3 4 6 e show ?thesis by simp
qed

section \<open>The admin handlers\<close>

text \<open>
  C8. A caller whose role is not \<^verbatim>\<open>super_admin\<close> is stopped by \<^verbatim>\<open>authAdmin\<close> before
  the handler runs: the role change, the password reset and the activation toggle
  each answer 403 (Forbidden, and not the 404 of a missing row), whatever the
  request carries and whatever the store would do, and the state is the one before
  the call: no user row is changed and no audit record is written.
\<close>

theorem admin_gate_forbids:
  assumes "ru_role c \<noteq> ''super_admin''"
  shows "update_role fails d (Some c) userId role
           = (Json 403 (ErrorBody ''Access restricted''), d)
       \<and> reset_password fails hash d (Some c) userId new_password
           = (Json 403 (ErrorBody ''Access restricted''), d)
       \<and> toggle_user fails d (Some c) user_id active
           = (Json 403 (ErrorBody ''Access restricted''), d)
       \<and> status_of (Json 403 (ErrorBody ''Access restricted'')) \<noteq> 404"
  using assms
  by (simp add: update_role_def reset_password_def toggle_user_def authAdmin_def)

text \<open>The theorem for the client U1, who tries each mutation on the coach.\<close>

theorem admin_gate_forbids_witness:
  "update_role no_faults gym_db (Some client_caller) 2 (Some ''client'')
     = (Json 403 (ErrorBody ''Access restricted''), gym_db)
   \<and> reset_password no_faults (\<lambda>pw. ''#'' @ pw) gym_db (Some client_caller) 2 (Some ''secret1'')
     = (Json 403 (ErrorBody ''Access restricted''), gym_db)
   \<and> toggle_user no_faults gym_db (Some client_caller) (Some 2) (Some False)
     = (Json 403 (ErrorBody ''Access restricted''), gym_db)"
proof -
  have h: "ru_role client_caller \<noteq> ''super_admin''"
    by (simp add: client_caller_def)
  from admin_gate_forbids [OF h] show ?thesis by simp
qed

text \<open>
  C3 does not hold of the handlers: none of them calls \<open>logAudit\<close>. The super admin
  changes the role of U1, resets the password of U1 and deactivates U1; each call
  answers 200 and applies the update, and the audit table is as empty as before.
\<close>

theorem admin_mutations_write_no_audit:
  "audit_logs gym_db = []
   \<and> update_role no_faults gym_db (Some admin_caller) 1 (Some ''coach'')
     = (Json 200 (MessageBody ''Role updated''), set_role ''coach'' 1 gym_db)
   \<and> map u_role (users (set_role ''coach'' 1 gym_db)) = [''coach'', ''coach'', ''super_admin'']
   \<and> audit_logs (set_role ''coach'' 1 gym_db) = []
   \<and> reset_password no_faults (\<lambda>pw. ''#'' @ pw) gym_db (Some admin_caller) 1 (Some ''secret1'')
     = (Json 200 (MessageBody ''Password reset successfully''),
        set_password ''#secret1'' 1 gym_db)
   \<and> audit_logs (set_password ''#secret1'' 1 gym_db) = []
   \<and> toggle_user no_faults gym_db (Some admin_caller) (Some 1) (Some False)
     = (Json 200 (MessageBody ''User status updated''), set_active False 1 gym_db)
   \<and> audit_logs (set_active False 1 gym_db) = []"
  by (simp add: eval_defs)

section \<open>The audit recorder swallows its own failure\<close>

text \<open>
  C9. For every input, and whether or not the insert into the audit table is
  rejected, \<open>logAudit\<close> returns normally: it never completes with a thrown error, so
  no caller can fail because of it. When the insert is rejected the tables are left
  as they were; when it is accepted exactly the one record is appended.
\<close>

theorem logAudit_never_throws:
  "fst (logAudit rejects actorId action targetId details d) = Inr ()
   \<and> snd (logAudit True actorId action targetId details d) = d
   \<and> snd (logAudit False actorId action targetId details d)
       = insert_audit actorId action targetId details d"
  by (simp add: logAudit_def audit_query_def)

end
